theory Spec2Isabelle
  imports Main "HOL-Library.Multiset"
begin

section \<open>Documents: the three mongoose schemas\<close>

text \<open>
  The schemas of \<^verbatim>\<open>User\<close>, \<^verbatim>\<open>Message\<close> and \<^verbatim>\<open>Room\<close> are the same in
  \<^verbatim>\<open>src/server.js\<close> and \<^verbatim>\<open>src/unnamed/part_000\<close>. A \<^verbatim>\<open>String\<close> path is a
  \<open>string\<close>, \<^verbatim>\<open>Boolean\<close> is \<open>bool\<close>, \<^verbatim>\<open>[String]\<close> is a \<open>string list\<close> and the
  \<^verbatim>\<open>Date\<close> of a message is its number of milliseconds. The identifier the store
  gives every document is not modelled: no handler reads it.

  \<open>user_view\<close> holds the three paths that \<^verbatim>\<open>User.find({}, "name email avatar")\<close>
  selects; a \<open>user\<close> is a \<open>user_view\<close> with the \<^verbatim>\<open>password\<close> path added.
\<close>

record user_view =
  name :: string
  email :: string
  avatar :: string

record user = user_view +
  password :: string

record message =
  senderEmail :: string
  senderName :: string
  receiver :: string
  msg_text :: string
  msg_file :: string
  isRoom :: bool
  time :: nat

record room =
  name :: string
  creator :: string
  members :: "string list"
  joinRequests :: "string list"

text \<open>
  The state a handler works on: the three collections, in insertion order, and the
  module variable \<^verbatim>\<open>isConnected\<close> of \<^verbatim>\<open>src/server.js\<close>. Two failures of the
  store are modelled, a connection that is refused and a duplicate key; once connected,
  the driver answers every call.
\<close>

record state =
  isConnected :: bool
  users :: "user list"
  rooms :: "room list"
  messages :: "message list"

datatype error = MongoConnectError | DuplicateKey

datatype body =
    Msg string
  | MsgDetails string error
  | LoginBody string string string string
  | UserList "user_view list"
  | RoomList "room list"
  | MessageList "message list"

text \<open>
  \<open>Response code b\<close> is \<^verbatim>\<open>res.status(code).json(b)\<close> (\<^verbatim>\<open>res.json(b)\<close> alone answers
  200). \<open>NoResponse\<close> is a handler without \<^verbatim>\<open>try\<close> whose promise rejects: nothing
  is sent.
\<close>

datatype response = Response nat body | NoResponse

section \<open>The store's operations\<close>

text \<open>
  \<^verbatim>\<open>connectDB\<close> of \<^verbatim>\<open>src/server.js\<close>. The argument \<open>up\<close> says whether
  \<^verbatim>\<open>mongoose.connect\<close> resolves; when it rejects, the error is thrown again.
\<close>

definition connectDB :: "bool \<Rightarrow> state \<Rightarrow> error + state" where
  "connectDB up s =
     (if isConnected s then Inr s
      else if up then Inr (s\<lparr>isConnected := True\<rparr>)
      else Inl MongoConnectError)"

definition User_findOne :: "user list \<Rightarrow> string \<Rightarrow> user option" where
  "User_findOne us e = find (\<lambda>u. email u = e) us"

text \<open>
  \<^verbatim>\<open>email: { type: String, unique: true }\<close>: the unique index refuses a second document
  with the same email, and \<^verbatim>\<open>create\<close> throws.
\<close>

definition User_create :: "user list \<Rightarrow> user \<Rightarrow> error + user list" where
  "User_create us u =
     (if email u \<in> set (map email us) then Inl DuplicateKey else Inr (us @ [u]))"

definition User_find_projection :: "user list \<Rightarrow> user_view list" where
  "User_find_projection us =
     map (\<lambda>u. \<lparr>user_view.name = user_view.name u, email = email u, avatar = avatar u\<rparr>) us"

definition Room_findOne :: "room list \<Rightarrow> string \<Rightarrow> room option" where
  "Room_findOne rs n = find (\<lambda>r. room.name r = n) rs"

definition Room_create :: "room list \<Rightarrow> room \<Rightarrow> error + room list" where
  "Room_create rs r =
     (if room.name r \<in> set (map room.name rs) then Inl DuplicateKey else Inr (rs @ [r]))"

text \<open>The first document the filter matches is the one updated, saved or deleted.\<close>

fun update_first :: "('a \<Rightarrow> bool) \<Rightarrow> ('a \<Rightarrow> 'a) \<Rightarrow> 'a list \<Rightarrow> 'a list" where
  "update_first P f [] = []"
| "update_first P f (x # xs) = (if P x then f x # xs else x # update_first P f xs)"

fun delete_first :: "('a \<Rightarrow> bool) \<Rightarrow> 'a list \<Rightarrow> 'a list" where
  "delete_first P [] = []"
| "delete_first P (x # xs) = (if P x then xs else x # delete_first P xs)"

definition Room_findOneAndUpdate :: "room list \<Rightarrow> string \<Rightarrow> (room \<Rightarrow> room) \<Rightarrow> room list" where
  "Room_findOneAndUpdate rs n upd = update_first (\<lambda>r. room.name r = n) upd rs"

definition Room_deleteOne :: "room list \<Rightarrow> string \<Rightarrow> room list" where
  "Room_deleteOne rs n = delete_first (\<lambda>r. room.name r = n) rs"

definition Message_deleteMany :: "(message \<Rightarrow> bool) \<Rightarrow> message list \<Rightarrow> message list" where
  "Message_deleteMany q ms = filter (\<lambda>m. \<not> q m) ms"

text \<open>\<^verbatim>\<open>Message.find(query).sort({ time: 1 })\<close>\<close>

definition Message_find_sorted :: "(message \<Rightarrow> bool) \<Rightarrow> message list \<Rightarrow> message list" where
  "Message_find_sorted q ms = sort_key time (filter q ms)"

text \<open>The update operators \<^verbatim>\<open>$addToSet\<close> and \<^verbatim>\<open>$pull\<close> on an array of strings.\<close>

definition addToSet :: "string list \<Rightarrow> string \<Rightarrow> string list" where
  "addToSet xs e = (if e \<in> set xs then xs else xs @ [e])"

definition pull :: "string list \<Rightarrow> string \<Rightarrow> string list" where
  "pull xs e = filter (\<lambda>x. x \<noteq> e) xs"

section \<open>Handlers of src/server.js\<close>

text \<open>
  \<^verbatim>\<open>POST /register\<close>. \<open>bcrypt_hash\<close> is this call's \<^verbatim>\<open>bcrypt.hash\<close> (the library
  draws a fresh salt at every call).
\<close>

definition post_register ::
  "bool \<Rightarrow> (string \<Rightarrow> nat \<Rightarrow> string) \<Rightarrow> state \<Rightarrow> string \<Rightarrow> string \<Rightarrow> string \<Rightarrow> response \<times> state" where
  "post_register up bcrypt_hash s nm em pw =
     (case connectDB up s of
        Inl err \<Rightarrow> (Response 500 (MsgDetails ''Register error'' err), s)
      | Inr s1 \<Rightarrow>
          (case User_findOne (users s1) em of
             Some exists \<Rightarrow> (Response 400 (Msg ''User already exists''), s1)
           | None \<Rightarrow>
               (case User_create (users s1)
                       \<lparr>user_view.name = nm, email = em, avatar = '''',
                        password = bcrypt_hash pw 10\<rparr> of
                  Inl err \<Rightarrow> (Response 500 (MsgDetails ''Register error'' err), s1)
                | Inr us \<Rightarrow>
                    (Response 200 (Msg ''Registered successfully''), s1\<lparr>users := us\<rparr>))))"



text \<open>\<^verbatim>\<open>GET /users\<close> and \<^verbatim>\<open>GET /rooms\<close>: no \<^verbatim>\<open>try\<close> around \<^verbatim>\<open>connectDB\<close>.\<close>

definition get_users :: "bool \<Rightarrow> state \<Rightarrow> response \<times> state" where
  "get_users up s =
     (case connectDB up s of
        Inl err \<Rightarrow> (NoResponse, s)
      | Inr s1 \<Rightarrow> (Response 200 (UserList (User_find_projection (users s1))), s1))"

definition get_rooms :: "bool \<Rightarrow> state \<Rightarrow> response \<times> state" where
  "get_rooms up s =
     (case connectDB up s of
        Inl err \<Rightarrow> (NoResponse, s)
      | Inr s1 \<Rightarrow> (Response 200 (RoomList (rooms s1)), s1))"

text \<open>
  \<^verbatim>\<open>GET /messages/:type/:id\<close>, with the query parameter \<^verbatim>\<open>me\<close> as the caller
  supplies it. \<open>room_query\<close> and \<open>private_query\<close> are the two filter objects.
\<close>

definition room_query :: "string \<Rightarrow> message \<Rightarrow> bool" where
  "room_query ident m = (receiver m = ident \<and> isRoom m = True)"

definition private_query :: "string \<Rightarrow> string \<Rightarrow> message \<Rightarrow> bool" where
  "private_query me ident m =
     (isRoom m = False \<and>
      ((senderEmail m = me \<and> receiver m = ident) \<or> (senderEmail m = ident \<and> receiver m = me)))"

definition get_messages :: "bool \<Rightarrow> state \<Rightarrow> string \<Rightarrow> string \<Rightarrow> string \<Rightarrow> response \<times> state" where
  "get_messages up s type ident me =
     (case connectDB up s of
        Inl err \<Rightarrow> (Response 500 (Msg ''Error fetching messages''), s)
      | Inr s1 \<Rightarrow>
          (let query = (if type = ''room'' then room_query ident else private_query me ident)
           in (Response 200 (MessageList (Message_find_sorted query (messages s1))), s1)))"

text \<open>\<^verbatim>\<open>POST /createRoom\<close>\<close>

definition post_createRoom :: "bool \<Rightarrow> state \<Rightarrow> string \<Rightarrow> string \<Rightarrow> response \<times> state" where
  "post_createRoom up s nm cr =
     (case connectDB up s of
        Inl err \<Rightarrow> (Response 500 (Msg ''Room creation error''), s)
      | Inr s1 \<Rightarrow>
          (case Room_findOne (rooms s1) nm of
             Some exists \<Rightarrow> (Response 400 (Msg ''Room exists''), s1)
           | None \<Rightarrow>
               (case Room_create (rooms s1)
                       \<lparr>room.name = nm, creator = cr, members = [cr], joinRequests = []\<rparr> of
                  Inl err \<Rightarrow> (Response 500 (Msg ''Room creation error''), s1)
                | Inr rs \<Rightarrow> (Response 200 (Msg ''Room created''), s1\<lparr>rooms := rs\<rparr>))))"

text \<open>
  \<^verbatim>\<open>POST /requestJoinRoom\<close>: one \<^verbatim>\<open>findOneAndUpdate\<close> with
  \<^verbatim>\<open>{ $addToSet: { joinRequests: email } }\<close>; the answer is the same whether or not a
  room matched.
\<close>

definition post_requestJoinRoom :: "bool \<Rightarrow> state \<Rightarrow> string \<Rightarrow> string \<Rightarrow> response \<times> state" where
  "post_requestJoinRoom up s roomName em =
     (case connectDB up s of
        Inl err \<Rightarrow> (Response 500 (Msg ''Error requesting join''), s)
      | Inr s1 \<Rightarrow>
          (Response 200 (Msg ''Request sent''),
           s1\<lparr>rooms := Room_findOneAndUpdate (rooms s1) roomName
                  (\<lambda>r. r\<lparr>joinRequests := addToSet (joinRequests r) em\<rparr>)\<rparr>))"

text \<open>
  \<^verbatim>\<open>POST /approveJoin\<close>: one \<^verbatim>\<open>findOneAndUpdate\<close> with
  \<^verbatim>\<open>{ $addToSet: { members: email }, $pull: { joinRequests: email } }\<close>.
\<close>

definition post_approveJoin :: "bool \<Rightarrow> state \<Rightarrow> string \<Rightarrow> string \<Rightarrow> response \<times> state" where
  "post_approveJoin up s roomName em =
     (case connectDB up s of
        Inl err \<Rightarrow> (Response 500 (Msg ''Error approving user''), s)
      | Inr s1 \<Rightarrow>
          (Response 200 (Msg ''User approved''),
           s1\<lparr>rooms := Room_findOneAndUpdate (rooms s1) roomName
                  (\<lambda>r. r\<lparr>members := addToSet (members r) em,
                          joinRequests := pull (joinRequests r) em\<rparr>)\<rparr>))"

section \<open>Handlers of src/unnamed/part\_000\<close>

text \<open>
  This file connects once when the module loads and has no \<^verbatim>\<open>connectDB\<close>; its
  handlers read a room, change the document and \<^verbatim>\<open>save\<close> it.
\<close>

definition get_users_part000 :: "state \<Rightarrow> response \<times> state" where
  "get_users_part000 s = (Response 200 (UserList (User_find_projection (users s))), s)"

definition get_rooms_part000 :: "state \<Rightarrow> response \<times> state" where
  "get_rooms_part000 s = (Response 200 (RoomList (rooms s)), s)"

definition Room_save :: "room list \<Rightarrow> string \<Rightarrow> room \<Rightarrow> room list" where
  "Room_save rs n r = update_first (\<lambda>x. room.name x = n) (\<lambda>x. r) rs"

text \<open>\<^verbatim>\<open>POST /createRoom\<close>\<close>

definition post_createRoom_part000 :: "state \<Rightarrow> string \<Rightarrow> string \<Rightarrow> response \<times> state" where
  "post_createRoom_part000 s nm cr =
     (case Room_findOne (rooms s) nm of
        Some exists \<Rightarrow> (Response 400 (Msg ''Room exists''), s)
      | None \<Rightarrow>
          (case Room_create (rooms s)
                  \<lparr>room.name = nm, creator = cr, members = [cr], joinRequests = []\<rparr> of
             Inl err \<Rightarrow> (Response 500 (Msg ''Room creation error''), s)
           | Inr rs \<Rightarrow> (Response 200 (Msg ''Room created''), s\<lparr>rooms := rs\<rparr>)))"

text \<open>\<^verbatim>\<open>POST /requestJoinRoom\<close> and \<^verbatim>\<open>POST /approveJoin\<close>\<close>

definition post_requestJoinRoom_part000 :: "state \<Rightarrow> string \<Rightarrow> string \<Rightarrow> response \<times> state" where
  "post_requestJoinRoom_part000 s roomName em =
     (case Room_findOne (rooms s) roomName of
        None \<Rightarrow> (Response 404 (Msg ''Room not found''), s)
      | Some r \<Rightarrow>
          if em \<notin> set (joinRequests r) \<and> em \<notin> set (members r)
          then (Response 200 (Msg ''Request sent''),
                s\<lparr>rooms := Room_save (rooms s) roomName
                              (r\<lparr>joinRequests := joinRequests r @ [em]\<rparr>)\<rparr>)
          else (Response 200 (Msg ''Request sent''), s))"

definition post_approveJoin_part000 :: "state \<Rightarrow> string \<Rightarrow> string \<Rightarrow> response \<times> state" where
  "post_approveJoin_part000 s roomName em =
     (case Room_findOne (rooms s) roomName of
        None \<Rightarrow> (Response 404 (Msg ''Room not found''), s)
      | Some r \<Rightarrow>
          (let r1 = r\<lparr>joinRequests := filter (\<lambda>e. e \<noteq> em) (joinRequests r)\<rparr>;
               r2 = (if em \<notin> set (members r1) then r1\<lparr>members := members r1 @ [em]\<rparr> else r1)
           in (Response 200 (Msg ''Approved''), s\<lparr>rooms := Room_save (rooms s) roomName r2\<rparr>)))"

text \<open>
  \<^verbatim>\<open>DELETE /deleteRoom/:name\<close>: \<^verbatim>\<open>Room.deleteOne({ name })\<close>, then
  \<^verbatim>\<open>Message.deleteMany({ receiver: name, isRoom: true })\<close>.
\<close>

definition delete_deleteRoom_part000 :: "state \<Rightarrow> string \<Rightarrow> response \<times> state" where
  "delete_deleteRoom_part000 s nm =
     (let s1 = s\<lparr>rooms := Room_deleteOne (rooms s) nm\<rparr>;
          s2 = s1\<lparr>messages :=
                  Message_deleteMany (\<lambda>m. receiver m = nm \<and> isRoom m = True) (messages s1)\<rparr>
      in (Response 200 (Msg ''Room deleted''), s2))"

section \<open>Reading a response, and the properties of a room\<close>



definition disjoint_sets :: "room \<Rightarrow> bool" where
  "disjoint_sets r = (set (members r) \<inter> set (joinRequests r) = {})"

definition rooms_disjoint :: "state \<Rightarrow> bool" where
  "rooms_disjoint s = list_all disjoint_sets (rooms s)"

text \<open>
  What a request followed by its approval is to establish for the room \<open>roomName\<close>: the
  email is a member, is no longer pending, and the two arrays share no email.
\<close>

definition joined :: "state \<Rightarrow> string \<Rightarrow> string \<Rightarrow> bool" where
  "joined s roomName em =
     (case Room_findOne (rooms s) roomName of
        None \<Rightarrow> False
      | Some r \<Rightarrow> em \<in> set (members r) \<and> em \<notin> set (joinRequests r) \<and> disjoint_sets r)"

section \<open>Example data\<close>

definition empty_state :: state where
  "empty_state = \<lparr>isConnected = False, users = [], rooms = [], messages = []\<rparr>"

definition general_room :: room where
  "general_room =
     \<lparr>room.name = ''general'', creator = ''alice'', members = [''alice''],
      joinRequests = [''bob'']\<rparr>"

definition random_room :: room where
  "random_room =
     \<lparr>room.name = ''random'', creator = ''bob'', members = [''bob''], joinRequests = []\<rparr>"

definition alice :: user where
  "alice =
     \<lparr>user_view.name = ''Alice'', email = ''alice'', avatar = '''', password = ''#wonder''\<rparr>"

definition bob :: user where
  "bob =
     \<lparr>user_view.name = ''Bob'', email = ''bob'', avatar = ''/uploads/1-b.png'',
      password = ''#builder''\<rparr>"

definition msg_room_hi :: message where
  "msg_room_hi =
     \<lparr>senderEmail = ''bob'', senderName = ''Bob'', receiver = ''general'', msg_text = ''hi'',
      msg_file = '''', isRoom = True, time = 30\<rparr>"

definition msg_alice_bob :: message where
  "msg_alice_bob =
     \<lparr>senderEmail = ''alice'', senderName = ''Alice'', receiver = ''bob'', msg_text = ''hello'',
      msg_file = '''', isRoom = False, time = 20\<rparr>"

definition msg_bob_alice :: message where
  "msg_bob_alice =
     \<lparr>senderEmail = ''bob'', senderName = ''Bob'', receiver = ''alice'', msg_text = ''hey'',
      msg_file = '''', isRoom = False, time = 10\<rparr>"

definition msg_room_first :: message where
  "msg_room_first =
     \<lparr>senderEmail = ''alice'', senderName = ''Alice'', receiver = ''general'',
      msg_text = ''welcome'', msg_file = '''', isRoom = True, time = 5\<rparr>"

definition msg_private_general :: message where
  "msg_private_general =
     \<lparr>senderEmail = ''alice'', senderName = ''Alice'', receiver = ''general'',
      msg_text = ''to a user called general'', msg_file = '''', isRoom = False, time = 7\<rparr>"

definition msg_other_room :: message where
  "msg_other_room =
     \<lparr>senderEmail = ''bob'', senderName = ''Bob'', receiver = ''random'', msg_text = ''yo'',
      msg_file = '''', isRoom = True, time = 1\<rparr>"

definition demo_state :: state where
  "demo_state =
     \<lparr>isConnected = False, users = [alice, bob], rooms = [general_room, random_room],
      messages = [msg_room_hi, msg_alice_bob, msg_bob_alice, msg_room_first,
                  msg_private_general, msg_other_room]\<rparr>"

text \<open>A stand-in for \<^verbatim>\<open>bcrypt\<close> in the examples: the hash of \<open>p\<close> is \<open>#p\<close>.\<close>

definition demo_hash :: "string \<Rightarrow> nat \<Rightarrow> string" where
  "demo_hash p rounds = CHR ''#'' # p"



section \<open>Facts about the store's operations\<close>

lemma connectDB_ok:
  "isConnected s \<or> up \<Longrightarrow> connectDB up s = Inr (s\<lparr>isConnected := True\<rparr>)"
  by (auto simp: connectDB_def)

lemma find_append:
  "find P (xs @ ys) = (case find P xs of None \<Rightarrow> find P ys | Some x \<Rightarrow> Some x)"
  by (induction xs) auto

lemma find_None_filter: "find P xs = None \<Longrightarrow> filter P xs = []"
  by (induction xs) (auto split: if_splits)

lemma find_Some_set: "find P xs = Some x \<Longrightarrow> x \<in> set xs \<and> P x"
  by (induction xs) (auto split: if_splits)

lemma update_first_idem:
  assumes "\<And>x. P x \<Longrightarrow> P (f x)" and "\<And>x. f (f x) = f x"
  shows "update_first P f (update_first P f xs) = update_first P f xs"
  by (induction xs) (simp_all add: assms)

lemma find_update_first:
  assumes "\<And>x. P (f x) = P x"
  shows "find P (update_first P f xs) = map_option f (find P xs)"
  by (induction xs) (simp_all add: assms)

lemma list_all_update_first:
  assumes "list_all Q xs" and "\<And>x. x \<in> set xs \<Longrightarrow> Q x \<Longrightarrow> Q (f x)"
  shows "list_all Q (update_first P f xs)"
  using assms by (induction xs) simp_all

lemma delete_first_distinct:
  "distinct (map f xs) \<Longrightarrow> delete_first (\<lambda>x. f x = n) xs = filter (\<lambda>x. f x \<noteq> n) xs"
proof (induction xs)
  case Nil
  then show ?case by simp
next
  case (Cons a xs)
  show ?case
  proof (cases "f a = n")
    case True
    with Cons.prems have "n \<notin> f ` set xs" by simp
    then have "filter (\<lambda>x. f x \<noteq> n) xs = xs"
      by (force simp: filter_id_conv)
    with True show ?thesis by simp
  next
    case False
    with Cons show ?thesis by simp
  qed
qed

lemma distinct_filter_email:
  "distinct (map email us) \<Longrightarrow> find (\<lambda>u. email u = e) us = Some u \<Longrightarrow>
   length (filter (\<lambda>u. email u = e) us) = 1"
proof (induction us)
  case Nil
  then show ?case by simp
next
  case (Cons a us)
  show ?case
  proof (cases "email a = e")
    case True
    with Cons.prems have "e \<notin> email ` set us" by simp
    then have "filter (\<lambda>u. email u = e) us = []"
      by (force simp: filter_empty_conv)
    with True show ?thesis by simp
  next
    case False
    with Cons show ?thesis by simp
  qed
qed

lemma addToSet_idem: "addToSet (addToSet xs e) e = addToSet xs e"
  by (simp add: addToSet_def)

lemma pull_idem: "pull (pull xs e) e = pull xs e"
  by (simp add: pull_def)

lemma set_addToSet: "set (addToSet xs e) = insert e (set xs)"
  by (auto simp: addToSet_def)

lemma set_pull: "set (pull xs e) = set xs - {e}"
  by (auto simp: pull_def)

lemma Room_findOne_update:
  "Room_findOne (Room_findOneAndUpdate rs n (\<lambda>r. r\<lparr>members := f r, joinRequests := g r\<rparr>)) n =
     map_option (\<lambda>r. r\<lparr>members := f r, joinRequests := g r\<rparr>) (Room_findOne rs n)"
  unfolding Room_findOne_def Room_findOneAndUpdate_def
  by (rule find_update_first) simp

lemma Room_findOne_update1:
  "Room_findOne (Room_findOneAndUpdate rs n (\<lambda>r. r\<lparr>joinRequests := g r\<rparr>)) n =
     map_option (\<lambda>r. r\<lparr>joinRequests := g r\<rparr>) (Room_findOne rs n)"
  unfolding Room_findOne_def Room_findOneAndUpdate_def
  by (rule find_update_first) simp

lemma Room_findOne_save:
  "Room_findOne rs n = Some r0 \<Longrightarrow> room.name r = n \<Longrightarrow> Room_findOne (Room_save rs n r) n = Some r"
  unfolding Room_findOne_def Room_save_def
  by (induction rs) (auto split: if_splits)

lemma Room_findOne_name: "Room_findOne rs n = Some r \<Longrightarrow> r \<in> set rs \<and> room.name r = n"
  unfolding Room_findOne_def by (rule find_Some_set)

lemma private_query_sym: "private_query a b = private_query b a"
  by (auto simp: private_query_def fun_eq_iff)

lemma mset_Message_find_sorted: "mset (Message_find_sorted q ms) = filter_mset q (mset ms)"
  by (simp add: Message_find_sorted_def)

lemma sorted_Message_find_sorted: "sorted (map time (Message_find_sorted q ms))"
  by (simp add: Message_find_sorted_def)

lemma User_find_projection_password:
  "length hs = length us \<Longrightarrow>
   User_find_projection (map2 (\<lambda>u h. u\<lparr>password := h\<rparr>) us hs) = User_find_projection us"
  by (induction us hs rule: list_induct2') (simp_all add: User_find_projection_def)

section \<open>The membership invariant\<close>

text \<open>
  A new room has disjoint arrays, and the approval of either file keeps every room's
  arrays disjoint. So does the request handler of \<^verbatim>\<open>src/unnamed/part_000\<close>, which
  looks the email up in \<^verbatim>\<open>members\<close> before it pushes.
\<close>

lemma post_createRoom_keeps_disjoint:
  assumes "rooms_disjoint s"
  shows "rooms_disjoint (snd (post_createRoom up s nm cr))"
  using assms
  by (simp add: post_createRoom_def connectDB_def Room_create_def rooms_disjoint_def
        disjoint_sets_def split: option.splits)

lemma post_approveJoin_keeps_disjoint:
  assumes "rooms_disjoint s"
  shows "rooms_disjoint (snd (post_approveJoin up s roomName em))"
proof -
  have "list_all disjoint_sets
          (update_first (\<lambda>r. room.name r = roomName)
             (\<lambda>r. r\<lparr>members := addToSet (members r) em, joinRequests := pull (joinRequests r) em\<rparr>)
             (rooms s))"
    using assms unfolding rooms_disjoint_def
    by (rule list_all_update_first) (auto simp: disjoint_sets_def set_addToSet set_pull)
  with assms show ?thesis
    by (simp add: post_approveJoin_def connectDB_def rooms_disjoint_def
          Room_findOneAndUpdate_def)
qed

lemma post_requestJoinRoom_part000_keeps_disjoint:
  assumes "rooms_disjoint s"
  shows "rooms_disjoint (snd (post_requestJoinRoom_part000 s roomName em))"
proof (cases "Room_findOne (rooms s) roomName")
  case None
  with assms show ?thesis by (simp add: post_requestJoinRoom_part000_def)
next
  case (Some r)
  then have "r \<in> set (rooms s)" by (simp add: Room_findOne_name)
  with assms have d: "disjoint_sets r"
    by (simp add: rooms_disjoint_def list_all_iff)
  show ?thesis
  proof (cases "em \<notin> set (joinRequests r) \<and> em \<notin> set (members r)")
    case True
    with d have "disjoint_sets (r\<lparr>joinRequests := joinRequests r @ [em]\<rparr>)"
      by (simp add: disjoint_sets_def)
    with assms have "list_all disjoint_sets
          (update_first (\<lambda>x. room.name x = roomName)
             (\<lambda>x. r\<lparr>joinRequests := joinRequests r @ [em]\<rparr>) (rooms s))"
      unfolding rooms_disjoint_def by (intro list_all_update_first)
    with Some True show ?thesis
      by (simp add: post_requestJoinRoom_part000_def rooms_disjoint_def Room_save_def)
  next
    case False
    with Some assms show ?thesis
      by (auto simp: post_requestJoinRoom_part000_def)
  qed
qed

lemma post_approveJoin_part000_keeps_disjoint:
  assumes "rooms_disjoint s"
  shows "rooms_disjoint (snd (post_approveJoin_part000 s roomName em))"
proof (cases "Room_findOne (rooms s) roomName")
  case None
  with assms show ?thesis by (simp add: post_approveJoin_part000_def)
next
  case (Some r)
  then have "r \<in> set (rooms s)" by (simp add: Room_findOne_name)
  with assms have d: "disjoint_sets r"
    by (simp add: rooms_disjoint_def list_all_iff)
  let ?r1 = "r\<lparr>joinRequests := filter (\<lambda>e. e \<noteq> em) (joinRequests r)\<rparr>"
  let ?r2 = "if em \<notin> set (members ?r1) then ?r1\<lparr>members := members ?r1 @ [em]\<rparr> else ?r1"
  from d have "disjoint_sets ?r2"
    by (auto simp: disjoint_sets_def)
  with assms have "list_all disjoint_sets
          (update_first (\<lambda>x. room.name x = roomName) (\<lambda>x. ?r2) (rooms s))"
    unfolding rooms_disjoint_def by (intro list_all_update_first)
  with Some show ?thesis
    by (simp add: post_approveJoin_part000_def rooms_disjoint_def Room_save_def Let_def)
qed

section \<open>Registration and login\<close>

lemma post_register_fresh:
  assumes "isConnected s \<or> up" and "User_findOne (users s) e = None"
  shows "post_register up h s n e p =
           (Response 200 (Msg ''Registered successfully''),
            s\<lparr>isConnected := True,
              users := users s @ [\<lparr>user_view.name = n, email = e, avatar = '''',
                                    password = h p 10\<rparr>]\<rparr>)"
proof -
  from assms(2) have "e \<notin> set (map email (users s))"
    by (auto simp: User_findOne_def find_None_iff)
  with assms show ?thesis
    by (simp add: post_register_def connectDB_ok User_create_def)
qed

lemma post_register_known:
  assumes "isConnected s \<or> up" and "User_findOne (users s) e = Some u"
  shows "post_register up h s n e p =
           (Response 400 (Msg ''User already exists''), s\<lparr>isConnected := True\<rparr>)"
  using assms by (simp add: post_register_def connectDB_ok)

text \<open>
  The unique indexes on \<^verbatim>\<open>email\<close> and on the \<^verbatim>\<open>name\<close> of a room hold after every
  registration and every creation of a room.
\<close>

lemma post_createRoom_keeps_unique:
  assumes "distinct (map room.name (rooms s))"
  shows "distinct (map room.name (rooms (snd (post_createRoom up s nm cr))))"
  using assms
  by (auto simp: post_createRoom_def connectDB_def Room_create_def split: option.splits)

lemma post_register_keeps_unique:
  assumes "distinct (map email (users s))"
  shows "distinct (map email (users (snd (post_register up h s n e p))))"
  using assms
  by (auto simp: post_register_def connectDB_def User_create_def split: option.splits)

text \<open>
  Claim C2. With the database reachable and the emails of the stored users distinct (the
  unique index of the schema), two registrations with the same email \<open>e\<close>, whatever the
  names and passwords, end with the answer 400 "User already exists" to the second one
  and with exactly one user of email \<open>e\<close> in the store.
\<close>

theorem post_register_twice:
  assumes "isConnected s \<or> up" and "distinct (map email (users s))"
  shows "fst (post_register up2 h2 (snd (post_register up h1 s n1 e p1)) n2 e p2) =
           Response 400 (Msg ''User already exists'')
       \<and> length (filter (\<lambda>u. email u = e)
           (users (snd (post_register up2 h2 (snd (post_register up h1 s n1 e p1)) n2 e p2)))) = 1"
proof (cases "User_findOne (users s) e")
  case None
  let ?u = "\<lparr>user_view.name = n1, email = e, avatar = '''', password = h1 p1 10\<rparr>"
  let ?s1 = "s\<lparr>isConnected := True, users := users s @ [?u]\<rparr>"
  have first: "post_register up h1 s n1 e p1 = (Response 200 (Msg ''Registered successfully''), ?s1)"
    using assms(1) None by (rule post_register_fresh)
  have found: "User_findOne (users ?s1) e = Some ?u"
    using None by (simp add: User_findOne_def find_append)
  have second: "post_register up2 h2 ?s1 n2 e p2 =
                  (Response 400 (Msg ''User already exists''), ?s1\<lparr>isConnected := True\<rparr>)"
    by (rule post_register_known [OF _ found]) simp
  have "filter (\<lambda>u. email u = e) (users s) = []"
    using None by (simp add: User_findOne_def find_None_filter)
  with first second show ?thesis by simp
next
  case (Some u)
  let ?s1 = "s\<lparr>isConnected := True\<rparr>"
  have first: "post_register up h1 s n1 e p1 = (Response 400 (Msg ''User already exists''), ?s1)"
    using assms(1) Some by (rule post_register_known)
  have second: "post_register up2 h2 ?s1 n2 e p2 =
                  (Response 400 (Msg ''User already exists''), ?s1\<lparr>isConnected := True\<rparr>)"
    by (rule post_register_known [where u = u]) (simp_all add: Some)
  have "length (filter (\<lambda>u. email u = e) (users s)) = 1"
    using assms(2) Some by (simp add: User_findOne_def distinct_filter_email)
  with first second show ?thesis by simp
qed

theorem post_register_twice_witness:
  "(isConnected demo_state \<or> True) \<and> distinct (map email (users demo_state))
   \<and> fst (post_register True demo_hash demo_state ''Carol'' ''carol'' ''pw'') =
       Response 200 (Msg ''Registered successfully'')
   \<and> fst (post_register False demo_hash
             (snd (post_register True demo_hash demo_state ''Carol'' ''carol'' ''pw''))
             ''Caroline'' ''carol'' ''other'') =
       Response 400 (Msg ''User already exists'')
   \<and> length (filter (\<lambda>u. email u = ''carol'')
        (users (snd (post_register False demo_hash
             (snd (post_register True demo_hash demo_state ''Carol'' ''carol'' ''pw''))
             ''Caroline'' ''carol'' ''other'')))) = 1"
proof -
  have up: "isConnected demo_state \<or> True"
    by simp
  have unique: "distinct (map email (users demo_state))"
    by (simp add: demo_state_def alice_def bob_def)
  have fresh: "fst (post_register True demo_hash demo_state ''Carol'' ''carol'' ''pw'') =
       Response 200 (Msg ''Registered successfully'')"
    by (simp add: post_register_def connectDB_def User_findOne_def User_create_def
          demo_state_def alice_def bob_def)
  from up unique fresh
    post_register_twice [OF up unique, of False demo_hash demo_hash
      "''Carol''" "''carol''" "''pw''" "''Caroline''" "''other''"]
  show ?thesis
    by (intro conjI) (simp_all only: simp_thms)
qed



text \<open>
  Claim C9. The list of users holds the name, the email and the avatar of each user: a
  store that differs from another one only in the stored password hashes gets the same
  response, from the handler of either file.
\<close>

theorem get_users_hides_password:
  assumes "length hs = length (users s)"
  shows "fst (get_users up (s\<lparr>users := map2 (\<lambda>u h. u\<lparr>password := h\<rparr>) (users s) hs\<rparr>)) =
           fst (get_users up s)
       \<and> fst (get_users_part000 (s\<lparr>users := map2 (\<lambda>u h. u\<lparr>password := h\<rparr>) (users s) hs\<rparr>)) =
           fst (get_users_part000 s)
       \<and> fst (get_users_part000 s) =
           Response 200 (UserList (map (\<lambda>u. \<lparr>user_view.name = user_view.name u, email = email u,
                                               avatar = avatar u\<rparr>) (users s)))
       \<and> fst (get_users True s) = fst (get_users_part000 s)"
  using assms
  by (simp add: get_users_def get_users_part000_def connectDB_def
        User_find_projection_password)
     (simp add: User_find_projection_def)

theorem get_users_hides_password_witness:
  "length [''h1'', ''h2''] = length (users demo_state)
   \<and> fst (get_users True (demo_state\<lparr>users := map2 (\<lambda>u h. u\<lparr>password := h\<rparr>)
                                                (users demo_state) [''h1'', ''h2'']\<rparr>)) =
       fst (get_users True demo_state)
   \<and> fst (get_users True demo_state) =
       Response 200 (UserList
         [\<lparr>user_view.name = ''Alice'', email = ''alice'', avatar = ''''\<rparr>,
          \<lparr>user_view.name = ''Bob'', email = ''bob'', avatar = ''/uploads/1-b.png''\<rparr>])"
proof -
  have len: "length [''h1'', ''h2''] = length (users demo_state)"
    by (simp add: demo_state_def)
  note same = get_users_hides_password [OF len, of True]
  have shown: "fst (get_users True demo_state) =
       Response 200 (UserList
         [\<lparr>user_view.name = ''Alice'', email = ''alice'', avatar = ''''\<rparr>,
          \<lparr>user_view.name = ''Bob'', email = ''bob'', avatar = ''/uploads/1-b.png''\<rparr>])"
    by (simp add: get_users_def connectDB_def User_find_projection_def demo_state_def
          alice_def bob_def)
  from len same shown show ?thesis
    by (intro conjI) (simp_all only: simp_thms)
qed

section \<open>Rooms\<close>

text \<open>
  Claim C4. Once the first approval has reached the database, a second approval of the
  same email for the same room changes nothing: response and state are those of the
  first one.
\<close>

theorem post_approveJoin_idempotent:
  assumes "isConnected s \<or> up"
  shows "post_approveJoin up2 (snd (post_approveJoin up s roomName em)) roomName em =
           post_approveJoin up s roomName em"
proof -
  let ?f = "\<lambda>r. r\<lparr>members := addToSet (members r) em, joinRequests := pull (joinRequests r) em\<rparr>"
  let ?P = "\<lambda>r. room.name r = roomName"
  have "update_first ?P ?f (update_first ?P ?f (rooms s)) = update_first ?P ?f (rooms s)"
    by (rule update_first_idem) (simp_all add: addToSet_idem pull_idem)
  with assms show ?thesis
    by (simp add: post_approveJoin_def connectDB_ok Room_findOneAndUpdate_def)
qed

theorem post_approveJoin_idempotent_witness:
  "(isConnected demo_state \<or> True)
   \<and> rooms (snd (post_approveJoin True demo_state ''general'' ''bob'')) =
       [\<lparr>room.name = ''general'', creator = ''alice'', members = [''alice'', ''bob''],
         joinRequests = []\<rparr>, random_room]
   \<and> post_approveJoin False (snd (post_approveJoin True demo_state ''general'' ''bob''))
        ''general'' ''bob'' =
       post_approveJoin True demo_state ''general'' ''bob''"
proof -
  have up: "isConnected demo_state \<or> True"
    by simp
  have once: "rooms (snd (post_approveJoin True demo_state ''general'' ''bob'')) =
       [\<lparr>room.name = ''general'', creator = ''alice'', members = [''alice'', ''bob''],
         joinRequests = []\<rparr>, random_room]"
    by (simp add: post_approveJoin_def connectDB_def Room_findOneAndUpdate_def demo_state_def
          general_room_def addToSet_def pull_def)
  from up once post_approveJoin_idempotent [OF up, of False "''general''" "''bob''"]
  show ?thesis
    by (intro conjI)
qed

text \<open>
  Claim C5. With the room names distinct (the unique index of the schema), deleting the
  room \<open>nm\<close> leaves no room of that name in the store or in the list of rooms, removes
  exactly the messages with receiver \<open>nm\<close> and \<^verbatim>\<open>isRoom\<close> true, and keeps every private
  message and every message to another receiver, in their order.
\<close>

theorem delete_deleteRoom_effect:
  assumes "distinct (map room.name (rooms s))"
  shows "nm \<notin> set (map room.name (rooms (snd (delete_deleteRoom_part000 s nm))))
       \<and> fst (get_rooms_part000 (snd (delete_deleteRoom_part000 s nm))) =
           Response 200 (RoomList (filter (\<lambda>r. room.name r \<noteq> nm) (rooms s)))
       \<and> messages (snd (delete_deleteRoom_part000 s nm)) =
           filter (\<lambda>m. \<not> (receiver m = nm \<and> isRoom m = True)) (messages s)
       \<and> filter (\<lambda>m. isRoom m = False) (messages (snd (delete_deleteRoom_part000 s nm))) =
           filter (\<lambda>m. isRoom m = False) (messages s)
       \<and> filter (\<lambda>m. receiver m \<noteq> nm) (messages (snd (delete_deleteRoom_part000 s nm))) =
           filter (\<lambda>m. receiver m \<noteq> nm) (messages s)"
proof -
  have r: "rooms (snd (delete_deleteRoom_part000 s nm)) = filter (\<lambda>r. room.name r \<noteq> nm) (rooms s)"
    using assms by (simp add: delete_deleteRoom_part000_def Room_deleteOne_def delete_first_distinct)
  have m: "messages (snd (delete_deleteRoom_part000 s nm)) =
           filter (\<lambda>m. \<not> (receiver m = nm \<and> isRoom m = True)) (messages s)"
    by (simp add: delete_deleteRoom_part000_def Message_deleteMany_def)
  have f1: "filter (\<lambda>m. isRoom m = False) (messages (snd (delete_deleteRoom_part000 s nm))) =
           filter (\<lambda>m. isRoom m = False) (messages s)"
    unfolding m filter_filter by (rule filter_cong) auto
  have f2: "filter (\<lambda>m. receiver m \<noteq> nm) (messages (snd (delete_deleteRoom_part000 s nm))) =
           filter (\<lambda>m. receiver m \<noteq> nm) (messages s)"
    unfolding m filter_filter by (rule filter_cong) auto
  have n: "nm \<notin> set (map room.name (rooms (snd (delete_deleteRoom_part000 s nm))))"
    unfolding r by auto
  have g: "fst (get_rooms_part000 (snd (delete_deleteRoom_part000 s nm))) =
           Response 200 (RoomList (filter (\<lambda>r. room.name r \<noteq> nm) (rooms s)))"
    by (simp add: get_rooms_part000_def r)
  from n g m f1 f2 show ?thesis by (intro conjI)
qed

theorem delete_deleteRoom_effect_witness:
  "distinct (map room.name (rooms demo_state))
   \<and> fst (get_rooms_part000 (snd (delete_deleteRoom_part000 demo_state ''general''))) =
       Response 200 (RoomList [random_room])
   \<and> messages (snd (delete_deleteRoom_part000 demo_state ''general'')) =
       [msg_alice_bob, msg_bob_alice, msg_private_general, msg_other_room]"
proof -
  have unique: "distinct (map room.name (rooms demo_state))"
    by (simp add: demo_state_def general_room_def random_room_def)
  note del = delete_deleteRoom_effect [OF unique, of "''general''"]
  have rs: "filter (\<lambda>r. room.name r \<noteq> ''general'') (rooms demo_state) = [random_room]"
    by (simp add: demo_state_def general_room_def random_room_def)
  have ms: "filter (\<lambda>m. \<not> (receiver m = ''general'' \<and> isRoom m = True)) (messages demo_state) =
       [msg_alice_bob, msg_bob_alice, msg_private_general, msg_other_room]"
    by (simp add: demo_state_def msg_room_hi_def msg_alice_bob_def msg_bob_alice_def
          msg_room_first_def msg_private_general_def msg_other_room_def)
  from unique del rs ms show ?thesis
    by (intro conjI) (simp_all only: simp_thms)
qed

text \<open>
  Claim C1, on the handlers of \<^verbatim>\<open>src/server.js\<close>: after alice has created the room
  "general", a join request of alice herself is stored, so that she is in \<^verbatim>\<open>members\<close>
  and in \<^verbatim>\<open>joinRequests\<close> at once. The handler of \<^verbatim>\<open>src/unnamed/part_000\<close> leaves the
  room as it is on the same request.
\<close>

theorem post_requestJoinRoom_stores_member:
  "rooms (snd (post_requestJoinRoom True
                 (snd (post_createRoom True empty_state ''general'' ''alice''))
                 ''general'' ''alice'')) =
     [\<lparr>room.name = ''general'', creator = ''alice'', members = [''alice''],
       joinRequests = [''alice'']\<rparr>]
   \<and> \<not> rooms_disjoint (snd (post_requestJoinRoom True
                 (snd (post_createRoom True empty_state ''general'' ''alice''))
                 ''general'' ''alice''))
   \<and> rooms (snd (post_requestJoinRoom_part000
                 (snd (post_createRoom True empty_state ''general'' ''alice''))
                 ''general'' ''alice'')) =
     [\<lparr>room.name = ''general'', creator = ''alice'', members = [''alice''],
       joinRequests = []\<rparr>]"
  by (simp add: post_requestJoinRoom_def post_requestJoinRoom_part000_def post_createRoom_def
        connectDB_def empty_state_def Room_findOneAndUpdate_def Room_findOne_def
        Room_create_def addToSet_def rooms_disjoint_def disjoint_sets_def)

text \<open>
  A join request followed by its approval, in either file: the email is a member and is
  no longer pending, whatever the room held before (for \<^verbatim>\<open>src/server.js\<close>, the database
  being reachable).
\<close>

lemma requestJoin_then_approveJoin_member:
  assumes "Room_findOne (rooms s) roomName = Some r" and "isConnected s \<or> up"
  shows "\<exists>r'. Room_findOne (rooms (snd (post_approveJoin up2
                   (snd (post_requestJoinRoom up s roomName em)) roomName em))) roomName = Some r'
              \<and> em \<in> set (members r') \<and> em \<notin> set (joinRequests r')"
    and "\<exists>r'. Room_findOne (rooms (snd (post_approveJoin_part000
                   (snd (post_requestJoinRoom_part000 s roomName em)) roomName em))) roomName = Some r'
              \<and> em \<in> set (members r') \<and> em \<notin> set (joinRequests r')"
proof -
  show "\<exists>r'. Room_findOne (rooms (snd (post_approveJoin up2
                   (snd (post_requestJoinRoom up s roomName em)) roomName em))) roomName = Some r'
              \<and> em \<in> set (members r') \<and> em \<notin> set (joinRequests r')"
    using assms
    by (auto simp: post_approveJoin_def post_requestJoinRoom_def connectDB_ok
          Room_findOne_update Room_findOne_update1 set_addToSet set_pull)
next
  have nm: "room.name r = roomName"
    using assms(1) by (simp add: Room_findOne_name)
  show "\<exists>r'. Room_findOne (rooms (snd (post_approveJoin_part000
                   (snd (post_requestJoinRoom_part000 s roomName em)) roomName em))) roomName = Some r'
              \<and> em \<in> set (members r') \<and> em \<notin> set (joinRequests r')"
    using assms nm
    by (auto simp: post_approveJoin_part000_def post_requestJoinRoom_part000_def
          Room_findOne_save Let_def)
qed

text \<open>
  When the two arrays of the room are disjoint before, they are disjoint after as well:
  neither handler touches another email.
\<close>

lemma requestJoin_then_approveJoin:
  assumes "Room_findOne (rooms s) roomName = Some r" and "disjoint_sets r"
      and "isConnected s \<or> up"
  shows "joined (snd (post_approveJoin up2
                   (snd (post_requestJoinRoom up s roomName em)) roomName em)) roomName em
       \<and> joined (snd (post_approveJoin_part000
                   (snd (post_requestJoinRoom_part000 s roomName em)) roomName em)) roomName em"
proof
  show "joined (snd (post_approveJoin up2
                   (snd (post_requestJoinRoom up s roomName em)) roomName em)) roomName em"
    using assms
    by (auto simp: joined_def post_approveJoin_def post_requestJoinRoom_def connectDB_ok
          Room_findOne_update Room_findOne_update1 disjoint_sets_def set_addToSet set_pull)
next
  have nm: "room.name r = roomName"
    using assms(1) by (simp add: Room_findOne_name)
  show "joined (snd (post_approveJoin_part000
                   (snd (post_requestJoinRoom_part000 s roomName em)) roomName em)) roomName em"
    using assms nm
    by (auto simp: joined_def post_approveJoin_part000_def post_requestJoinRoom_part000_def
          Room_findOne_save disjoint_sets_def Let_def)
qed

lemma requestJoin_then_approveJoin_example:
  "Room_findOne (rooms demo_state) ''general'' = Some general_room
   \<and> disjoint_sets general_room
   \<and> (isConnected demo_state \<or> True)
   \<and> joined (snd (post_approveJoin False
                 (snd (post_requestJoinRoom True demo_state ''general'' ''carol''))
                 ''general'' ''carol'')) ''general'' ''carol''
   \<and> joined (snd (post_approveJoin_part000
                 (snd (post_requestJoinRoom_part000 demo_state ''general'' ''carol''))
                 ''general'' ''carol'')) ''general'' ''carol''"
proof -
  have found: "Room_findOne (rooms demo_state) ''general'' = Some general_room"
    by (simp add: Room_findOne_def demo_state_def general_room_def)
  have disj: "disjoint_sets general_room"
    by (simp add: disjoint_sets_def general_room_def)
  have up: "isConnected demo_state \<or> True"
    by simp
  from found disj up requestJoin_then_approveJoin [OF found disj up, of False "''carol''"]
  show ?thesis
    by (intro conjI) (simp_all only: simp_thms)
qed

text \<open>
  Claim C3, on the handlers of \<^verbatim>\<open>src/server.js\<close>: alice creates the room "general" and
  requests to join it, then bob requests to join and is approved. The room exists, bob
  is a member and is not pending, but the two arrays are not disjoint: alice is in both,
  put there by the request handler that never reads \<^verbatim>\<open>members\<close>. The same four requests
  to the handlers of \<^verbatim>\<open>src/unnamed/part_000\<close> end with disjoint arrays.
\<close>

theorem requestJoin_then_approveJoin_overlap:
  "rooms (snd (post_approveJoin True
          (snd (post_requestJoinRoom True
             (snd (post_requestJoinRoom True
                (snd (post_createRoom True empty_state ''general'' ''alice''))
                ''general'' ''alice''))
             ''general'' ''bob''))
          ''general'' ''bob'')) =
     [\<lparr>room.name = ''general'', creator = ''alice'', members = [''alice'', ''bob''],
       joinRequests = [''alice'']\<rparr>]
   \<and> \<not> joined
       (snd (post_approveJoin True
          (snd (post_requestJoinRoom True
             (snd (post_requestJoinRoom True
                (snd (post_createRoom True empty_state ''general'' ''alice''))
                ''general'' ''alice''))
             ''general'' ''bob''))
          ''general'' ''bob''))
       ''general'' ''bob''
   \<and> rooms (snd (post_approveJoin_part000
          (snd (post_requestJoinRoom_part000
             (snd (post_requestJoinRoom_part000
                (snd (post_createRoom_part000 empty_state ''general'' ''alice''))
                ''general'' ''alice''))
             ''general'' ''bob''))
          ''general'' ''bob'')) =
     [\<lparr>room.name = ''general'', creator = ''alice'', members = [''alice'', ''bob''],
       joinRequests = []\<rparr>]
   \<and> joined
       (snd (post_approveJoin_part000
          (snd (post_requestJoinRoom_part000
             (snd (post_requestJoinRoom_part000
                (snd (post_createRoom_part000 empty_state ''general'' ''alice''))
                ''general'' ''alice''))
             ''general'' ''bob''))
          ''general'' ''bob''))
       ''general'' ''bob''"
proof -
  have server: "rooms (snd (post_approveJoin True
          (snd (post_requestJoinRoom True
             (snd (post_requestJoinRoom True
                (snd (post_createRoom True empty_state ''general'' ''alice''))
                ''general'' ''alice''))
             ''general'' ''bob''))
          ''general'' ''bob'')) =
     [\<lparr>room.name = ''general'', creator = ''alice'', members = [''alice'', ''bob''],
       joinRequests = [''alice'']\<rparr>]"
    by (simp add: post_approveJoin_def post_requestJoinRoom_def post_createRoom_def
          connectDB_def empty_state_def Room_findOneAndUpdate_def Room_findOne_def
          Room_create_def addToSet_def pull_def)
  have part000: "rooms (snd (post_approveJoin_part000
          (snd (post_requestJoinRoom_part000
             (snd (post_requestJoinRoom_part000
                (snd (post_createRoom_part000 empty_state ''general'' ''alice''))
                ''general'' ''alice''))
             ''general'' ''bob''))
          ''general'' ''bob'')) =
     [\<lparr>room.name = ''general'', creator = ''alice'', members = [''alice'', ''bob''],
       joinRequests = []\<rparr>]"
    by (simp add: post_approveJoin_part000_def post_requestJoinRoom_part000_def
          post_createRoom_part000_def empty_state_def Room_save_def Room_findOne_def
          Room_create_def Let_def)
  show ?thesis
    unfolding joined_def server part000
    by (simp add: Room_findOne_def disjoint_sets_def)
qed

section \<open>Conversations\<close>

text \<open>
  Claim C6. With the database reachable, the private conversation with \<open>B\<close> fetched by
  \<open>A\<close> is made of exactly the stored messages with \<^verbatim>\<open>isRoom\<close> false sent by \<open>A\<close> to \<open>B\<close>
  or by \<open>B\<close> to \<open>A\<close>, each as often as it is stored, in ascending order of \<^verbatim>\<open>time\<close>;
  and \<open>B\<close> fetching the conversation with \<open>A\<close> gets the same response.
\<close>

theorem get_messages_private:
  assumes "isConnected s \<or> up"
  shows "fst (get_messages up s ''private'' B A) =
           Response 200 (MessageList (Message_find_sorted (private_query A B) (messages s)))
       \<and> mset (Message_find_sorted (private_query A B) (messages s)) =
           filter_mset (\<lambda>m. isRoom m = False \<and>
               ((senderEmail m = A \<and> receiver m = B) \<or> (senderEmail m = B \<and> receiver m = A)))
             (mset (messages s))
       \<and> sorted (map time (Message_find_sorted (private_query A B) (messages s)))
       \<and> fst (get_messages up s ''private'' A B) = fst (get_messages up s ''private'' B A)"
proof -
  have q: "private_query A B = (\<lambda>m. isRoom m = False \<and>
               ((senderEmail m = A \<and> receiver m = B) \<or> (senderEmail m = B \<and> receiver m = A)))"
    by (simp add: private_query_def fun_eq_iff)
  have 1: "fst (get_messages up s ''private'' B A) =
           Response 200 (MessageList (Message_find_sorted (private_query A B) (messages s)))"
    using assms by (simp add: get_messages_def connectDB_ok)
  have 2: "mset (Message_find_sorted (private_query A B) (messages s)) =
           filter_mset (\<lambda>m. isRoom m = False \<and>
               ((senderEmail m = A \<and> receiver m = B) \<or> (senderEmail m = B \<and> receiver m = A)))
             (mset (messages s))"
    by (simp only: mset_Message_find_sorted q)
  have 3: "fst (get_messages up s ''private'' A B) = fst (get_messages up s ''private'' B A)"
    using assms by (simp add: get_messages_def connectDB_ok private_query_sym [of A B])
  from 1 2 3 show ?thesis
    by (simp only: sorted_Message_find_sorted simp_thms)
qed

theorem get_messages_private_witness:
  "(isConnected demo_state \<or> True)
   \<and> fst (get_messages True demo_state ''private'' ''bob'' ''alice'') =
       Response 200 (MessageList [msg_bob_alice, msg_alice_bob])
   \<and> fst (get_messages True demo_state ''private'' ''alice'' ''bob'') =
       Response 200 (MessageList [msg_bob_alice, msg_alice_bob])"
proof -
  have up: "isConnected demo_state \<or> True"
    by simp
  note conv = get_messages_private [OF up, of "''bob''" "''alice''"]
  have found: "Message_find_sorted (private_query ''alice'' ''bob'') (messages demo_state) =
                 [msg_bob_alice, msg_alice_bob]"
    by (simp add: Message_find_sorted_def private_query_def demo_state_def msg_room_hi_def
          msg_alice_bob_def msg_bob_alice_def msg_room_first_def msg_private_general_def
          msg_other_room_def)
  from up conv found show ?thesis
    by (intro conjI) (simp_all only: simp_thms)
qed

text \<open>
  Claim C7. With the database reachable, the conversation of the room \<open>ident\<close> is made of
  exactly the stored messages with receiver \<open>ident\<close> and \<^verbatim>\<open>isRoom\<close> true, each as often
  as it is stored, in ascending order of \<^verbatim>\<open>time\<close>.
\<close>

theorem get_messages_room:
  assumes "isConnected s \<or> up"
  shows "fst (get_messages up s ''room'' ident me) =
           Response 200 (MessageList (Message_find_sorted (room_query ident) (messages s)))
       \<and> mset (Message_find_sorted (room_query ident) (messages s)) =
           filter_mset (\<lambda>m. receiver m = ident \<and> isRoom m = True) (mset (messages s))
       \<and> sorted (map time (Message_find_sorted (room_query ident) (messages s)))"
proof -
  have "room_query ident = (\<lambda>m. receiver m = ident \<and> isRoom m = True)"
    by (simp add: room_query_def fun_eq_iff)
  then have "mset (Message_find_sorted (room_query ident) (messages s)) =
           filter_mset (\<lambda>m. receiver m = ident \<and> isRoom m = True) (mset (messages s))"
    by (simp only: mset_Message_find_sorted)
  moreover have "fst (get_messages up s ''room'' ident me) =
           Response 200 (MessageList (Message_find_sorted (room_query ident) (messages s)))"
    using assms by (simp add: get_messages_def connectDB_ok)
  ultimately show ?thesis
    by (simp only: sorted_Message_find_sorted simp_thms)
qed

theorem get_messages_room_witness:
  "(isConnected demo_state \<or> True)
   \<and> fst (get_messages True demo_state ''room'' ''general'' ''alice'') =
       Response 200 (MessageList [msg_room_first, msg_room_hi])"
proof -
  have up: "isConnected demo_state \<or> True"
    by simp
  note conv = get_messages_room [OF up, of "''general''" "''alice''"]
  have found: "Message_find_sorted (room_query ''general'') (messages demo_state) =
                 [msg_room_first, msg_room_hi]"
    by (simp add: Message_find_sorted_def room_query_def demo_state_def msg_room_hi_def
          msg_alice_bob_def msg_bob_alice_def msg_room_first_def msg_private_general_def
          msg_other_room_def)
  from up conv found show ?thesis
    by (intro conjI) (simp_all only: simp_thms)
qed

text \<open>
  Claim C10. The handler has two branches. With the database reachable, the type "room"
  is answered with the stored messages of receiver \<open>ident\<close> and \<^verbatim>\<open>isRoom\<close> true, and
  every other type with the stored messages of \<^verbatim>\<open>isRoom\<close> false between \<open>me\<close> and
  \<open>ident\<close>, both sorted by \<^verbatim>\<open>time\<close>. Reachable or not, every type other than "room" is
  answered as "private" is: response and state are the same.
\<close>

theorem get_messages_dispatch:
  "(type \<noteq> ''room'' \<longrightarrow>
      get_messages up s type ident me = get_messages up s ''private'' ident me)
   \<and> (isConnected s \<or> up \<longrightarrow>
        fst (get_messages up s ''room'' ident me) =
          Response 200 (MessageList (sort_key time
            (filter (\<lambda>m. receiver m = ident \<and> isRoom m = True) (messages s)))))
   \<and> ((isConnected s \<or> up) \<and> type \<noteq> ''room'' \<longrightarrow>
        fst (get_messages up s type ident me) =
          Response 200 (MessageList (sort_key time
            (filter (\<lambda>m. isRoom m = False \<and>
                       ((senderEmail m = me \<and> receiver m = ident) \<or>
                        (senderEmail m = ident \<and> receiver m = me)))
               (messages s)))))"
proof -
  have room_query_eq: "room_query ident = (\<lambda>m. receiver m = ident \<and> isRoom m = True)"
    by (simp add: room_query_def fun_eq_iff)
  have private_query_eq:
    "private_query me ident =
       (\<lambda>m. isRoom m = False \<and>
            ((senderEmail m = me \<and> receiver m = ident) \<or>
             (senderEmail m = ident \<and> receiver m = me)))"
    by (simp add: private_query_def fun_eq_iff)
  show ?thesis
  proof (intro conjI impI)
    assume "type \<noteq> ''room''"
    then show "get_messages up s type ident me = get_messages up s ''private'' ident me"
      by (simp add: get_messages_def)
  next
    assume "isConnected s \<or> up"
    then show "fst (get_messages up s ''room'' ident me) =
            Response 200 (MessageList (sort_key time
              (filter (\<lambda>m. receiver m = ident \<and> isRoom m = True) (messages s))))"
      by (simp add: get_messages_def connectDB_ok Message_find_sorted_def room_query_eq)
  next
    assume "(isConnected s \<or> up) \<and> type \<noteq> ''room''"
    then show "fst (get_messages up s type ident me) =
            Response 200 (MessageList (sort_key time
              (filter (\<lambda>m. isRoom m = False \<and>
                         ((senderEmail m = me \<and> receiver m = ident) \<or>
                          (senderEmail m = ident \<and> receiver m = me)))
                 (messages s))))"
      by (simp add: get_messages_def connectDB_ok Message_find_sorted_def private_query_eq)
  qed
qed

theorem get_messages_dispatch_witness:
  "(isConnected demo_state \<or> True)
   \<and> ''rooms'' \<noteq> ''room''
   \<and> get_messages True demo_state ''rooms'' ''general'' ''alice'' =
       get_messages True demo_state ''private'' ''general'' ''alice''
   \<and> fst (get_messages True demo_state ''rooms'' ''general'' ''alice'') =
       Response 200 (MessageList [msg_private_general])
   \<and> fst (get_messages True demo_state ''room'' ''general'' ''alice'') =
       Response 200 (MessageList [msg_room_first, msg_room_hi])"
proof -
  have up: "isConnected demo_state \<or> True"
    by simp
  have other: "''rooms'' \<noteq> ''room''"
    by simp
  note branches = get_messages_dispatch [of "''rooms''" True demo_state "''general''" "''alice''"]
  from branches other
  have same: "get_messages True demo_state ''rooms'' ''general'' ''alice'' =
       get_messages True demo_state ''private'' ''general'' ''alice''"
    by blast
  have private_found:
    "sort_key time
       (filter (\<lambda>m. isRoom m = False \<and>
                  ((senderEmail m = ''alice'' \<and> receiver m = ''general'') \<or>
                   (senderEmail m = ''general'' \<and> receiver m = ''alice'')))
          (messages demo_state)) = [msg_private_general]"
    by (simp add: demo_state_def msg_room_hi_def msg_alice_bob_def msg_bob_alice_def
          msg_room_first_def msg_private_general_def msg_other_room_def)
  have room_found:
    "sort_key time
       (filter (\<lambda>m. receiver m = ''general'' \<and> isRoom m = True) (messages demo_state)) =
     [msg_room_first, msg_room_hi]"
    by (simp add: demo_state_def msg_room_hi_def msg_alice_bob_def msg_bob_alice_def
          msg_room_first_def msg_private_general_def msg_other_room_def)
  from branches up other
  have private_shown: "fst (get_messages True demo_state ''rooms'' ''general'' ''alice'') =
       Response 200 (MessageList [msg_private_general])"
    unfolding private_found by blast
  from branches up
  have room_shown: "fst (get_messages True demo_state ''room'' ''general'' ''alice'') =
       Response 200 (MessageList [msg_room_first, msg_room_hi])"
    unfolding room_found by blast
  from up other same private_shown room_shown show ?thesis
    by (intro conjI)
qed

end
